theory Spec2Isabelle
  imports Complex_Main
begin

section \<open>JavaScript values and the coercions the handlers rely on\<close>

text \<open>
  A JavaScript number is NaN, an infinity or a finite double. The handlers only
  compare numbers, so a finite double is modelled by the real it denotes (the two
  zeros coincide: no comparison of the source separates them).
\<close>

datatype jsnum = NaN | PosInf | NegInf | Fin real

text \<open>
  The values \<open>req.body\<close> and its properties can hold: what \<open>JSON.parse\<close>
  builds, and \<open>undefined\<close> for a property that is absent. \<open>Obj\<close> lists the own
  properties of an object, each key once.
\<close>

datatype jsval =
    Undefined
  | Null
  | Bool bool
  | Num jsnum
  | Str string
  | Arr "jsval list"
  | Obj "(string \<times> jsval) list"

text \<open>
  A thrown error, with the attributes the source inspects:
  \<open>err instanceof SyntaxError\<close>, \<open>err.status\<close>, \<open>"body" in err\<close> and
  \<open>err.message\<close>.
\<close>

record js_error =
  is_SyntaxError :: bool
  err_status :: "nat option"
  has_body :: bool
  message :: string

definition TypeError :: "string \<Rightarrow> js_error" where
  "TypeError msg = \<lparr>is_SyntaxError = False, err_status = None, has_body = False, message = msg\<rparr>"

text \<open>
  The parts of the language runtime that are not written out here, taken as
  parameters: the conversion of a string to a number (\<open>StringToNumber\<close> of
  ECMAScript, with its rounding to a double), the conversion of an array or object
  to a primitive (for a value built by \<open>JSON.parse\<close> that is the string of its
  inherited \<open>toString\<close>, or a TypeError when own properties shadow the inherited
  methods), and the message of the TypeError raised when \<open>undefined\<close> or
  \<open>null\<close> is destructured.
\<close>

record runtime =
  StringToNumber :: "string \<Rightarrow> jsnum"
  ToPrimitive :: "jsval \<Rightarrow> js_error + string"
  destructure_message :: string

text \<open>\<open>ToNumber\<close> of ECMAScript.\<close>

fun ToNumber :: "runtime \<Rightarrow> jsval \<Rightarrow> js_error + jsnum" where
  "ToNumber rt Undefined = Inr NaN"
| "ToNumber rt Null = Inr (Fin 0)"
| "ToNumber rt (Bool b) = Inr (Fin (if b then 1 else 0))"
| "ToNumber rt (Num n) = Inr n"
| "ToNumber rt (Str s) = Inr (StringToNumber rt s)"
| "ToNumber rt (Arr xs) =
     (case ToPrimitive rt (Arr xs) of Inl e \<Rightarrow> Inl e | Inr s \<Rightarrow> Inr (StringToNumber rt s))"
| "ToNumber rt (Obj ps) =
     (case ToPrimitive rt (Obj ps) of Inl e \<Rightarrow> Inl e | Inr s \<Rightarrow> Inr (StringToNumber rt s))"

text \<open>The comparison \<open>x < y\<close> of two numbers: false as soon as one is NaN.\<close>

fun num_lt :: "jsnum \<Rightarrow> jsnum \<Rightarrow> bool" where
  "num_lt NaN y = False"
| "num_lt x NaN = False"
| "num_lt (Fin x) (Fin y) = (x < y)"
| "num_lt NegInf NegInf = False"
| "num_lt NegInf y = True"
| "num_lt x NegInf = False"
| "num_lt PosInf y = False"
| "num_lt x PosInf = True"

fun num_finite :: "jsnum \<Rightarrow> bool" where
  "num_finite (Fin x) = True"
| "num_finite n = False"

text \<open>
  The global \<open>isFinite(v)\<close>, and \<open>v < n\<close>, \<open>v > n\<close> for a number \<open>n\<close>: each
  converts \<open>v\<close> with \<open>ToNumber\<close> first, and throws what the conversion throws.
\<close>

definition isFinite :: "runtime \<Rightarrow> jsval \<Rightarrow> js_error + bool" where
  "isFinite rt v = (case ToNumber rt v of Inl e \<Rightarrow> Inl e | Inr n \<Rightarrow> Inr (num_finite n))"

definition js_lt :: "runtime \<Rightarrow> jsval \<Rightarrow> jsnum \<Rightarrow> js_error + bool" where
  "js_lt rt v n = (case ToNumber rt v of Inl e \<Rightarrow> Inl e | Inr m \<Rightarrow> Inr (num_lt m n))"

definition js_gt :: "runtime \<Rightarrow> jsval \<Rightarrow> jsnum \<Rightarrow> js_error + bool" where
  "js_gt rt v n = (case ToNumber rt v of Inl e \<Rightarrow> Inl e | Inr m \<Rightarrow> Inr (num_lt n m))"

definition js_not :: "js_error + bool \<Rightarrow> js_error + bool" where
  "js_not a = (case a of Inl e \<Rightarrow> Inl e | Inr b \<Rightarrow> Inr (\<not> b))"

text \<open>\<open>a || b\<close>: \<open>b\<close> is evaluated only when \<open>a\<close> is false.\<close>

definition js_or :: "js_error + bool \<Rightarrow> js_error + bool \<Rightarrow> js_error + bool" where
  "js_or a b = (case a of Inl e \<Rightarrow> Inl e | Inr True \<Rightarrow> Inr True | Inr False \<Rightarrow> b)"

text \<open>\<open>v == null\<close>: true of \<open>undefined\<close> and \<open>null\<close> only.\<close>

fun eq_null :: "jsval \<Rightarrow> bool" where
  "eq_null Undefined = True"
| "eq_null Null = True"
| "eq_null v = False"

text \<open>
  \<open>v.key\<close> for a key that no prototype defines (\<open>latitude\<close>, \<open>longitude\<close>):
  the own property of an object, \<open>undefined\<close> otherwise.
\<close>

fun get_prop :: "jsval \<Rightarrow> string \<Rightarrow> jsval" where
  "get_prop (Obj ps) k = (case map_of ps k of Some v \<Rightarrow> v | None \<Rightarrow> Undefined)"
| "get_prop v k = Undefined"

text \<open>
  \<open>const { latitude, longitude } = req.body\<close>: a TypeError when \<open>req.body\<close> is
  \<open>undefined\<close> or \<open>null\<close>.
\<close>

definition destructure :: "runtime \<Rightarrow> jsval \<Rightarrow> js_error + jsval \<times> jsval" where
  "destructure rt b =
     (if eq_null b then Inl (TypeError (destructure_message rt))
      else Inr (get_prop b ''latitude'', get_prop b ''longitude''))"

section \<open>The location store\<close>

text \<open>
  Modelled from the spec: the schema \<open>./models/Location\<close> is not part of the
  sources. A record holds the coordinates it was created with and the creation
  time the storage layer assigns.
\<close>

record location =
  latitude :: jsval
  longitude :: jsval
  createdAt :: int

datatype store_call = Save jsval jsval | Find_sort_limit nat

text \<open>
  The collection (oldest insertion first) and the operations invoked on it so far.
\<close>

record db =
  docs :: "location list"
  calls :: "store_call list"

text \<open>
  What the surroundings decide for one request: the clock, and the failure the
  persistence layer raises for the operation of this request, if any (connection
  loss, a rejection by the schema, an I/O error).
\<close>

record env =
  clock :: int
  fault :: "js_error option"

text \<open>
  Modelled from the spec: \<open>new Location({ latitude, longitude }).save()\<close> persists
  a new record with the creation time and returns it, or fails and persists nothing.
\<close>

definition save :: "env \<Rightarrow> jsval \<Rightarrow> jsval \<Rightarrow> db \<Rightarrow> (js_error + location) \<times> db" where
  "save e lat lon d =
     (let d' = d\<lparr>calls := calls d @ [Save lat lon]\<rparr> in
      case fault e of
        Some err \<Rightarrow> (Inl err, d')
      | None \<Rightarrow>
          (let r = \<lparr>latitude = lat, longitude = lon, createdAt = clock e\<rparr>
           in (Inr r, d'\<lparr>docs := docs d' @ [r]\<rparr>)))"

section \<open>Responses\<close>

datatype payload =
    Error_received string jsval
  | Error_only string
  | Error_message string string
  | Message_location string location
  | Locations "location list"
  | File string
  | Empty
  | Default_page

record response =
  status :: nat
  body :: payload

section \<open>POST /send-location\<close>

text \<open>
  The body of the \<open>try\<close> block, statement by statement: \<open>Inl\<close> is an exception
  that reaches \<open>catch\<close>. Logging is left out. The two range checks are
  \<open>!isFinite(latitude) || latitude < -90 || latitude > 90\<close> and
  \<open>!isFinite(longitude) || longitude < -180 || longitude > 180\<close>.
\<close>

definition send_location_try ::
  "runtime \<Rightarrow> env \<Rightarrow> jsval \<Rightarrow> db \<Rightarrow> (js_error + response) \<times> db" where
  "send_location_try rt e b d =
     (case destructure rt b of
        Inl err \<Rightarrow> (Inl err, d)
      | Inr (lat, lon) \<Rightarrow>
          if eq_null lat \<or> eq_null lon then
            (Inr \<lparr>status = 400, body = Error_received ''Missing required fields'' b\<rparr>, d)
          else
            (case js_or (js_not (isFinite rt lat))
                    (js_or (js_lt rt lat (Fin (- 90))) (js_gt rt lat (Fin 90))) of
               Inl err \<Rightarrow> (Inl err, d)
             | Inr True \<Rightarrow>
                 (Inr \<lparr>status = 400, body = Error_received ''Invalid latitude value'' lat\<rparr>, d)
             | Inr False \<Rightarrow>
                 (case js_or (js_not (isFinite rt lon))
                         (js_or (js_lt rt lon (Fin (- 180))) (js_gt rt lon (Fin 180))) of
                    Inl err \<Rightarrow> (Inl err, d)
                  | Inr True \<Rightarrow>
                      (Inr \<lparr>status = 400,
                            body = Error_received ''Invalid longitude value'' lon\<rparr>, d)
                  | Inr False \<Rightarrow>
                      (case save e lat lon d of
                         (Inl err, d') \<Rightarrow> (Inl err, d')
                       | (Inr savedLocation, d') \<Rightarrow>
                           (Inr \<lparr>status = 201,
                                 body = Message_location ''Location saved successfully''
                                          savedLocation\<rparr>, d')))))"

text \<open>The handler: the \<open>catch\<close> clause answers every exception of the block.\<close>

definition send_location :: "runtime \<Rightarrow> env \<Rightarrow> jsval \<Rightarrow> db \<Rightarrow> response \<times> db" where
  "send_location rt e b d =
     (case send_location_try rt e b d of
        (Inr res, d') \<Rightarrow> (res, d')
      | (Inl error, d') \<Rightarrow>
          (\<lparr>status = 500,
            body = Error_message ''Internal server error'' (message error)\<rparr>, d'))"

section \<open>GET /locations\<close>

text \<open>
  The query \<open>Location.find().sort("-createdAt").limit(10)\<close>: every record, by
  descending \<open>createdAt\<close>, the first \<open>n\<close> of them. Records of equal
  \<open>createdAt\<close> keep their insertion order here; the database promises no order
  among them.
\<close>

definition Location_find :: "db \<Rightarrow> location list" where
  "Location_find d = docs d"

definition sort_createdAt_desc :: "location list \<Rightarrow> location list" where
  "sort_createdAt_desc rs = sort_key (\<lambda>r. - createdAt r) rs"

definition limit :: "nat \<Rightarrow> location list \<Rightarrow> location list" where
  "limit n rs = take n rs"

text \<open>Awaiting the query runs it: it yields the records or fails.\<close>

definition run_query :: "env \<Rightarrow> nat \<Rightarrow> db \<Rightarrow> (js_error + location list) \<times> db" where
  "run_query e n d =
     (let d' = d\<lparr>calls := calls d @ [Find_sort_limit n]\<rparr> in
      case fault e of
        Some err \<Rightarrow> (Inl err, d')
      | None \<Rightarrow> (Inr (limit n (sort_createdAt_desc (Location_find d))), d'))"

definition get_locations :: "env \<Rightarrow> db \<Rightarrow> response \<times> db" where
  "get_locations e d =
     (case run_query e 10 d of
        (Inr locations, d') \<Rightarrow> (\<lparr>status = 200, body = Locations locations\<rparr>, d')
      | (Inl error, d') \<Rightarrow>
          (\<lparr>status = 500,
            body = Error_message ''Error fetching locations'' (message error)\<rparr>, d'))"

section \<open>The application: middleware and routes in the order they are registered\<close>

datatype http_method = GET | HEAD | POST | OPTIONS | OTHER string

text \<open>
  A request as the application sees it: \<open>parse_error\<close> is the error that
  \<open>express.json()\<close> passes on when it cannot read the body, and \<open>req_body\<close> is
  \<open>req.body\<close> once \<open>express.json()\<close> has run.
\<close>

record request =
  req_method :: http_method
  path :: string
  parse_error :: "js_error option"
  req_body :: jsval

text \<open>
  The parts of the framework taken as parameters: how a route pattern matches a
  request path, what \<open>express.static\<close> answers for the path of a GET or HEAD
  request (\<open>None\<close> when it passes the request on), whether
  \<open>decodeURIComponent\<close> accepts the path (the router decodes what \<open>*\<close>
  captures), and whether \<open>public/index.html\<close> is there for \<open>res.sendFile\<close>.
\<close>

record framework =
  route_matches :: "string \<Rightarrow> string \<Rightarrow> bool"
  express_static :: "string \<Rightarrow> response option"
  decodes :: "string \<Rightarrow> bool"
  index_html :: bool

text \<open>
  The error that \<open>express.json()\<close> raises for a body that is not valid JSON: the
  SyntaxError of the parser, with status 400 and the raw body attached.
\<close>

definition parse_failure :: "string \<Rightarrow> js_error" where
  "parse_failure msg =
     \<lparr>is_SyntaxError = True, err_status = Some 400, has_body = True, message = msg\<rparr>"

text \<open>
  The error-handling middleware of lines 39 to 45: it answers a JSON syntax error
  and calls \<open>next()\<close> for any other error, which resumes the normal chain.
\<close>

definition json_error_middleware :: "js_error \<Rightarrow> response option" where
  "json_error_middleware err =
     (if is_SyntaxError err \<and> err_status err = Some 400 \<and> has_body err
      then Some \<lparr>status = 400, body = Error_only ''Invalid JSON format''\<rparr>
      else None)"

text \<open>A route registered with \<open>app.get\<close> also serves HEAD requests.\<close>

fun is_get :: "http_method \<Rightarrow> bool" where
  "is_get GET = True"
| "is_get HEAD = True"
| "is_get m = False"

text \<open>
  The layer of \<open>app.get("*")\<close>. The pattern matches every path and the router
  decodes the captured path before it looks at the method: a path that cannot be
  decoded is an error with status 400, which no handler of the application
  answers, so the framework sends its default page for it, whatever the method.
  Otherwise a GET or HEAD request gets \<open>index.html\<close> (the default 404 page when
  \<open>res.sendFile\<close> does not find it), and a request of another method, which no
  route handles, the default 404 page.
\<close>

definition catch_all :: "framework \<Rightarrow> http_method \<Rightarrow> string \<Rightarrow> response" where
  "catch_all fw m p =
     (if \<not> decodes fw p then \<lparr>status = 400, body = Default_page\<rparr>
      else if is_get m then
        (if index_html fw then \<lparr>status = 200, body = File ''public/index.html''\<rparr>
         else \<lparr>status = 404, body = Default_page\<rparr>)
      else \<lparr>status = 404, body = Default_page\<rparr>)"

text \<open>
  \<open>app.use(express.static(...))\<close> followed by \<open>app.get("*")\<close>:
  \<open>express.static\<close> looks at GET and HEAD requests only and passes every
  request it does not answer on to the catch-all.
\<close>

definition static_fallback :: "framework \<Rightarrow> http_method \<Rightarrow> string \<Rightarrow> response" where
  "static_fallback fw m p =
     (case (if is_get m then express_static fw p else None) of
        Some res \<Rightarrow> res
      | None \<Rightarrow> catch_all fw m p)"

text \<open>
  The routes, reached when no error is pending: the two JSON routes, then the
  static files and the catch-all.
\<close>

definition routes :: "runtime \<Rightarrow> framework \<Rightarrow> env \<Rightarrow> request \<Rightarrow> db \<Rightarrow> response \<times> db" where
  "routes rt fw e req d =
     (if req_method req = POST \<and> route_matches fw ''/send-location'' (path req)
        then send_location rt e (req_body req) d
      else if is_get (req_method req) \<and> route_matches fw ''/locations'' (path req)
        then get_locations e d
      else (static_fallback fw (req_method req) (path req), d))"

text \<open>
  The whole chain: \<open>cors\<close> answers an OPTIONS request itself (204, empty) and
  passes every other request on; then the body parser and its error handler; then
  the routes.
\<close>

definition app :: "runtime \<Rightarrow> framework \<Rightarrow> env \<Rightarrow> request \<Rightarrow> db \<Rightarrow> response \<times> db" where
  "app rt fw e req d =
     (if req_method req = OPTIONS then (\<lparr>status = 204, body = Empty\<rparr>, d)
      else
        (case parse_error req of
           None \<Rightarrow> routes rt fw e req d
         | Some err \<Rightarrow>
             (case json_error_middleware err of
                Some res \<Rightarrow> (res, d)
              | None \<Rightarrow> routes rt fw e req d)))"


section \<open>Shutdown on SIGTERM\<close>







section \<open>The vocabulary of the specification\<close>

text \<open>
  A number is an acceptable coordinate when it is finite and lies in
  \<open>[-bound, bound]\<close>, both ends included.
\<close>

definition finite_in_range :: "jsnum \<Rightarrow> real \<Rightarrow> bool" where
  "finite_in_range n bound = (case n of Fin x \<Rightarrow> - bound \<le> x \<and> x \<le> bound | _ \<Rightarrow> False)"




text \<open>The values that are neither arrays nor objects.\<close>

fun primitive :: "jsval \<Rightarrow> bool" where
  "primitive (Arr xs) = False"
| "primitive (Obj ps) = False"
| "primitive v = True"

text \<open>
  What the range checks of the handler establish is weaker, since they look at a
  value through its conversion: the conversion to a number succeeds and yields a
  number that is finite and in the interval. The value itself need not be a number.
\<close>

definition coordinate_ok :: "runtime \<Rightarrow> jsval \<Rightarrow> real \<Rightarrow> bool" where
  "coordinate_ok rt v bound =
     (case ToNumber rt v of Inl e \<Rightarrow> False | Inr n \<Rightarrow> finite_in_range n bound)"


text \<open>
  Newest first: no record is followed by a newer one; strictly so when none is
  followed by one as new either.
\<close>

definition newest_first :: "location list \<Rightarrow> bool" where
  "newest_first rs = sorted_wrt (\<lambda>a b. createdAt b \<le> createdAt a) rs"

definition strictly_newest_first :: "location list \<Rightarrow> bool" where
  "strictly_newest_first rs = sorted_wrt (\<lambda>a b. createdAt b < createdAt a) rs"


section \<open>Concrete surroundings for the examples\<close>

text \<open>
  A runtime and a framework to run the examples on; the theorems hold for every
  runtime and framework. The runtime converts objects as ECMAScript does (an own
  \<open>toString\<close> property, never callable in a parsed body, leaves no method to
  call); the examples convert no string but "45" and no array. The framework
  matches routes by equality of paths and decodes the paths without an escape; the
  examples use no path with a well-formed escape.
\<close>

definition sample_runtime :: runtime where
  "sample_runtime =
     \<lparr>StringToNumber = (\<lambda>s. if s = ''45'' then Fin 45 else NaN),
      ToPrimitive =
        (\<lambda>v. case v of
               Obj ps \<Rightarrow>
                 if ''toString'' \<in> fst ` set ps
                 then Inl (TypeError ''Cannot convert object to primitive value'')
                 else Inr ''[object Object]''
             | _ \<Rightarrow> Inr ''[object Object]''),
      destructure_message = ''Cannot destructure property of undefined''\<rparr>"

definition sample_framework :: framework where
  "sample_framework =
     \<lparr>route_matches = (\<lambda>pattern p. p = pattern),
      express_static =
        (\<lambda>p. if p = ''/main.js'' then Some \<lparr>status = 200, body = File ''public/main.js''\<rparr>
             else None),
      decodes = (\<lambda>p. CHR ''%'' \<notin> set p),
      index_html = True\<rparr>"

definition quiet_env :: env where
  "quiet_env = \<lparr>clock = 1000, fault = None\<rparr>"

definition storage_error :: "string \<Rightarrow> js_error" where
  "storage_error msg =
     \<lparr>is_SyntaxError = False, err_status = None, has_body = False, message = msg\<rparr>"

definition failing_env :: env where
  "failing_env = \<lparr>clock = 1000, fault = Some (storage_error ''connection lost'')\<rparr>"

definition empty_db :: db where
  "empty_db = \<lparr>docs = [], calls = []\<rparr>"

definition origin_at :: "int \<Rightarrow> location" where
  "origin_at t = \<lparr>latitude = Num (Fin 0), longitude = Num (Fin 0), createdAt = t\<rparr>"

definition origin_body :: jsval where
  "origin_body = Obj [(''latitude'', Num (Fin 0)), (''longitude'', Num (Fin 0))]"

definition tie_db :: db where
  "tie_db =
     \<lparr>docs = [origin_at 1000, origin_at 1000],
      calls = [Save (Num (Fin 0)) (Num (Fin 0)), Save (Num (Fin 0)) (Num (Fin 0))]\<rparr>"

definition eleven_db :: db where
  "eleven_db =
     \<lparr>docs = map origin_at [3, 1, 4, 15, 9, 2, 6, 5, 35, 8, 7], calls = []\<rparr>"







section \<open>Lemmas on the range check and the handler\<close>

text \<open>
  The range check of the source rejects exactly the values whose number is not
  finite or lies outside the interval; it throws when the conversion throws.
\<close>

lemma range_check_eq:
  "js_or (js_not (isFinite rt v)) (js_or (js_lt rt v (Fin (- bound))) (js_gt rt v (Fin bound))) =
     (case ToNumber rt v of Inl e \<Rightarrow> Inl e | Inr n \<Rightarrow> Inr (\<not> finite_in_range n bound))"
proof (cases "ToNumber rt v")
  case (Inl e)
  then show ?thesis
    by (simp add: isFinite_def js_not_def js_or_def)
next
  case (Inr n)
  then show ?thesis
    by (cases n)
      (auto simp: isFinite_def js_not_def js_or_def js_lt_def js_gt_def finite_in_range_def
        split: bool.splits)
qed

lemma range_check_ok:
  "coordinate_ok rt v bound \<Longrightarrow>
     js_or (js_not (isFinite rt v)) (js_or (js_lt rt v (Fin (- bound))) (js_gt rt v (Fin bound))) =
       Inr False"
  by (simp add: range_check_eq coordinate_ok_def split: sum.splits)

lemma get_prop_not_null: "\<not> eq_null (get_prop b k) \<Longrightarrow> \<not> eq_null b"
  by (cases b) auto

lemma send_location_try_valid:
  assumes "\<not> eq_null (get_prop b ''latitude'')" "\<not> eq_null (get_prop b ''longitude'')"
    and "coordinate_ok rt (get_prop b ''latitude'') 90"
    and "coordinate_ok rt (get_prop b ''longitude'') 180"
  shows "send_location_try rt e b d =
     (case save e (get_prop b ''latitude'') (get_prop b ''longitude'') d of
        (Inl err, d') \<Rightarrow> (Inl err, d')
      | (Inr savedLocation, d') \<Rightarrow>
          (Inr \<lparr>status = 201,
                body = Message_location ''Location saved successfully'' savedLocation\<rparr>, d'))"
  using assms get_prop_not_null[OF assms(1)]
  by (simp add: send_location_try_def destructure_def range_check_ok)



lemma send_location_bad_latitude:
  assumes "\<not> eq_null (get_prop b ''latitude'')" "\<not> eq_null (get_prop b ''longitude'')"
    and "ToNumber rt (get_prop b ''latitude'') = Inr n" "\<not> finite_in_range n 90"
  shows "send_location rt e b d =
     (\<lparr>status = 400,
       body = Error_received ''Invalid latitude value'' (get_prop b ''latitude'')\<rparr>, d)"
  using assms get_prop_not_null[OF assms(1)]
  by (simp add: send_location_def send_location_try_def destructure_def range_check_eq)

lemma send_location_bad_longitude:
  assumes "\<not> eq_null (get_prop b ''latitude'')" "\<not> eq_null (get_prop b ''longitude'')"
    and "ToNumber rt (get_prop b ''latitude'') = Inr n" "finite_in_range n 90"
    and "ToNumber rt (get_prop b ''longitude'') = Inr m" "\<not> finite_in_range m 180"
  shows "send_location rt e b d =
     (\<lparr>status = 400,
       body = Error_received ''Invalid longitude value'' (get_prop b ''longitude'')\<rparr>, d)"
  using assms get_prop_not_null[OF assms(1)]
  by (simp add: send_location_def send_location_try_def destructure_def range_check_eq)




section \<open>The order of validation\<close>




section \<open>Storing a valid location\<close>

lemma send_location_valid:
  assumes "\<not> eq_null (get_prop b ''latitude'')" "\<not> eq_null (get_prop b ''longitude'')"
    and "coordinate_ok rt (get_prop b ''latitude'') 90"
    and "coordinate_ok rt (get_prop b ''longitude'') 180"
  shows "send_location rt e b d =
     (case fault e of
        Some err \<Rightarrow>
          (\<lparr>status = 500, body = Error_message ''Internal server error'' (message err)\<rparr>,
           d\<lparr>calls := calls d @ [Save (get_prop b ''latitude'') (get_prop b ''longitude'')]\<rparr>)
      | None \<Rightarrow>
          (\<lparr>status = 201,
            body = Message_location ''Location saved successfully''
              \<lparr>latitude = get_prop b ''latitude'', longitude = get_prop b ''longitude'',
               createdAt = clock e\<rparr>\<rparr>,
           d\<lparr>calls := calls d @ [Save (get_prop b ''latitude'') (get_prop b ''longitude'')],
             docs := docs d @
               [\<lparr>latitude = get_prop b ''latitude'', longitude = get_prop b ''longitude'',
                 createdAt = clock e\<rparr>]\<rparr>))"
  by (simp add: send_location_def send_location_try_valid[OF assms] save_def Let_def
      split: option.splits)

lemma coordinate_ok_Num: "coordinate_ok rt (Num (Fin x)) bound = (- bound \<le> x \<and> x \<le> bound)"
  by (simp add: coordinate_ok_def finite_in_range_def)

text \<open>
  C2. When the body holds a finite latitude in \<open>[-90, 90]\<close> and a finite longitude
  in \<open>[-180, 180]\<close> (the ends included), the handler invokes the save operation
  of the store with exactly these two coordinates, and when the store does not fail
  it answers 201 with \<open>{message, location}\<close>, the location being the stored record,
  which carries the same latitude and longitude.
\<close>

theorem valid_post_creates:
  assumes "get_prop b ''latitude'' = Num (Fin x)" "- 90 \<le> x" "x \<le> 90"
    and "get_prop b ''longitude'' = Num (Fin y)" "- 180 \<le> y" "y \<le> 180"
  shows "calls (snd (send_location rt e b d)) = calls d @ [Save (Num (Fin x)) (Num (Fin y))]
       \<and> (fault e = None \<longrightarrow>
            send_location rt e b d =
              (\<lparr>status = 201,
                body = Message_location ''Location saved successfully''
                  \<lparr>latitude = Num (Fin x), longitude = Num (Fin y), createdAt = clock e\<rparr>\<rparr>,
               d\<lparr>calls := calls d @ [Save (Num (Fin x)) (Num (Fin y))],
                 docs := docs d @
                   [\<lparr>latitude = Num (Fin x), longitude = Num (Fin y), createdAt = clock e\<rparr>]\<rparr>))"
proof -
  have ok: "\<not> eq_null (get_prop b ''latitude'')" "\<not> eq_null (get_prop b ''longitude'')"
    "coordinate_ok rt (get_prop b ''latitude'') 90"
    "coordinate_ok rt (get_prop b ''longitude'') 180"
    using assms by (simp_all add: coordinate_ok_Num)
  show ?thesis
    unfolding send_location_valid[OF ok] using assms(1,4)
    by (simp split: option.splits)
qed

theorem valid_post_creates_witness:
  "send_location sample_runtime quiet_env
     (Obj [(''latitude'', Num (Fin 90)), (''longitude'', Num (Fin (- 180)))]) empty_db =
     (\<lparr>status = 201,
       body = Message_location ''Location saved successfully''
         \<lparr>latitude = Num (Fin 90), longitude = Num (Fin (- 180)), createdAt = 1000\<rparr>\<rparr>,
      \<lparr>docs = [\<lparr>latitude = Num (Fin 90), longitude = Num (Fin (- 180)), createdAt = 1000\<rparr>],
       calls = [Save (Num (Fin 90)) (Num (Fin (- 180)))]\<rparr>)"
  using valid_post_creates [where
      b = "Obj [(''latitude'', Num (Fin 90)), (''longitude'', Num (Fin (- 180)))]"
      and x = 90 and y = "- 180" and rt = sample_runtime and e = quiet_env and d = empty_db]
  by (simp add: quiet_env_def empty_db_def)


section \<open>The most recent locations\<close>

lemma distinct_map_insort_key:
  "distinct (map h (insort_key g x xs)) = (h x \<notin> h ` set xs \<and> distinct (map h xs))"
  by (induction xs) (auto simp: set_insort_key)

lemma distinct_map_sort_key:
  "distinct (map h (sort_key g xs)) = distinct (map h xs)"
  by (induction xs) (auto simp: distinct_map_insort_key)

lemma newest_first_sort: "newest_first (sort_createdAt_desc rs)"
proof -
  have "sorted (map (\<lambda>r. - createdAt r) (sort_key (\<lambda>r. - createdAt r) rs))"
    by (rule sorted_sort_key)
  then show ?thesis
    by (simp add: newest_first_def sort_createdAt_desc_def sorted_map)
qed

lemma newest_first_limit: "newest_first rs \<Longrightarrow> newest_first (limit n rs)"
  by (simp add: newest_first_def limit_def)

lemma newest_first_distinct:
  "newest_first rs \<Longrightarrow> distinct (map createdAt rs) \<Longrightarrow> strictly_newest_first rs"
  unfolding newest_first_def strictly_newest_first_def
proof (induction rs)
  case Nil
  then show ?case by simp
next
  case (Cons r rs)
  have "createdAt b < createdAt r" if "b \<in> set rs" for b
  proof -
    from Cons.prems(1) that have "createdAt b \<le> createdAt r" by simp
    moreover from Cons.prems(2) that have "createdAt b \<noteq> createdAt r" by (auto simp: image_iff)
    ultimately show ?thesis by simp
  qed
  with Cons show ?case by simp
qed

lemma distinct_query:
  "distinct (map createdAt rs) \<Longrightarrow> distinct (map createdAt (limit n (sort_createdAt_desc rs)))"
  by (simp add: limit_def sort_createdAt_desc_def distinct_map_sort_key take_map [symmetric])

lemma length_query: "length (limit n (sort_createdAt_desc rs)) = min n (length rs)"
  by (simp add: limit_def sort_createdAt_desc_def min.commute)

lemma set_query: "set (limit n (sort_createdAt_desc rs)) \<subseteq> set rs"
  using set_take_subset [of n "sort_createdAt_desc rs"]
  by (simp add: limit_def sort_createdAt_desc_def)

lemma get_locations_ok:
  "fault e = None \<Longrightarrow>
     get_locations e d =
       (\<lparr>status = 200, body = Locations (limit 10 (sort_createdAt_desc (docs d)))\<rparr>,
        d\<lparr>calls := calls d @ [Find_sort_limit 10]\<rparr>)"
  by (simp add: get_locations_def run_query_def Location_find_def Let_def)

text \<open>
  C3 (as amended). For every state of the store, when the query does not fail, GET
  /locations answers 200 with an array of at most 10 stored records, none followed
  by a newer one; the order is strictly descending when no two stored records share
  a \<open>createdAt\<close>. With more than 10 records stored it returns exactly 10, and
  with none it returns the empty array.
\<close>

theorem get_locations_newest_first:
  assumes "fault e = None"
  shows "\<exists>rs. get_locations e d =
            (\<lparr>status = 200, body = Locations rs\<rparr>, d\<lparr>calls := calls d @ [Find_sort_limit 10]\<rparr>)
          \<and> length rs \<le> 10
          \<and> (10 < length (docs d) \<longrightarrow> length rs = 10)
          \<and> (docs d = [] \<longrightarrow> rs = [])
          \<and> set rs \<subseteq> set (docs d)
          \<and> newest_first rs
          \<and> (distinct (map createdAt (docs d)) \<longrightarrow> strictly_newest_first rs)"
proof (intro exI conjI impI)
  let ?rs = "limit 10 (sort_createdAt_desc (docs d))"
  show "get_locations e d =
      (\<lparr>status = 200, body = Locations ?rs\<rparr>, d\<lparr>calls := calls d @ [Find_sort_limit 10]\<rparr>)"
    using assms by (rule get_locations_ok)
  show "length ?rs \<le> 10" by (simp add: length_query)
  show "length ?rs = 10" if "10 < length (docs d)"
    using that by (simp add: length_query)
  show "?rs = []" if "docs d = []"
    using that by (simp add: limit_def sort_createdAt_desc_def)
  show "set ?rs \<subseteq> set (docs d)" by (rule set_query)
  show nf: "newest_first ?rs" by (intro newest_first_limit newest_first_sort)
  show "strictly_newest_first ?rs" if "distinct (map createdAt (docs d))"
    using nf that by (intro newest_first_distinct distinct_query)
qed

theorem get_locations_newest_first_witness:
  "get_locations quiet_env eleven_db =
     (\<lparr>status = 200, body = Locations (map origin_at [35, 15, 9, 8, 7, 6, 5, 4, 3, 2])\<rparr>,
      eleven_db\<lparr>calls := calls eleven_db @ [Find_sort_limit 10]\<rparr>)
   \<and> length (map origin_at [35, 15, 9, 8, 7, 6, 5, 4, 3, 2]) = 10
   \<and> strictly_newest_first (map origin_at [35, 15, 9, 8, 7, 6, 5, 4, 3, 2])"
  using get_locations_newest_first [where e = quiet_env and d = eleven_db]
  by (auto simp: quiet_env_def eleven_db_def origin_at_def limit_def sort_createdAt_desc_def
      get_locations_def run_query_def Location_find_def)

text \<open>
  Two locations posted at the same instant are both returned, and neither is
  strictly newer than the other: the order is not strict for every store state.
\<close>

theorem ties_counterexample:
  "snd (send_location sample_runtime quiet_env origin_body
      (snd (send_location sample_runtime quiet_env origin_body empty_db))) = tie_db
   \<and> get_locations quiet_env tie_db =
     (\<lparr>status = 200, body = Locations [origin_at 1000, origin_at 1000]\<rparr>,
      tie_db\<lparr>calls := calls tie_db @ [Find_sort_limit 10]\<rparr>)
   \<and> \<not> strictly_newest_first [origin_at 1000, origin_at 1000]"
  by (simp add: send_location_valid coordinate_ok_Num origin_body_def empty_db_def
      get_locations_ok limit_def sort_createdAt_desc_def strictly_newest_first_def quiet_env_def
      tie_db_def origin_at_def)

section \<open>What reaches the store\<close>
















section \<open>Malformed JSON\<close>

text \<open>
  C5. For every request that reaches the body parser (every request but the
  OPTIONS requests that \<open>cors\<close> answers first) and whose body fails to parse as
  JSON, the service answers 400 with \<open>{error: "Invalid JSON format"}\<close>; the
  error middleware answers before any route runs, so the store is as it was: no
  validation and no store operation took place.
\<close>

theorem malformed_json_rejected:
  assumes "req_method req \<noteq> OPTIONS" and "parse_error req = Some (parse_failure msg)"
  shows "app rt fw e req d = (\<lparr>status = 400, body = Error_only ''Invalid JSON format''\<rparr>, d)"
  using assms by (simp add: app_def json_error_middleware_def parse_failure_def)

theorem malformed_json_rejected_witness:
  "app sample_runtime sample_framework failing_env
     \<lparr>req_method = POST, path = ''/send-location'',
      parse_error = Some (parse_failure ''Unexpected end of JSON input''), req_body = Obj []\<rparr>
     tie_db =
     (\<lparr>status = 400, body = Error_only ''Invalid JSON format''\<rparr>, tie_db)"
  using malformed_json_rejected [where rt = sample_runtime and fw = sample_framework
      and e = failing_env and d = tie_db and msg = "''Unexpected end of JSON input''"
      and req = "\<lparr>req_method = POST, path = ''/send-location'',
        parse_error = Some (parse_failure ''Unexpected end of JSON input''), req_body = Obj []\<rparr>"]
  by simp

section \<open>Failures of the persistence layer\<close>

text \<open>
  C6. When the persistence layer fails with an error, the handler that invoked it
  answers 500 with \<open>{error, message}\<close>, the message being the message of that
  error: POST /send-location (which reaches the store once the coordinates have
  passed validation) with the error "Internal server error", GET /locations with
  "Error fetching locations". The handler returns a response: the failure does not
  leave it.
\<close>

theorem storage_failure_reported:
  assumes "fault e = Some err"
  shows "(\<not> eq_null (get_prop b ''latitude'') \<and> \<not> eq_null (get_prop b ''longitude'') \<and>
          coordinate_ok rt (get_prop b ''latitude'') 90 \<and>
          coordinate_ok rt (get_prop b ''longitude'') 180 \<longrightarrow>
            send_location rt e b d =
              (\<lparr>status = 500, body = Error_message ''Internal server error'' (message err)\<rparr>,
               d\<lparr>calls := calls d @
                 [Save (get_prop b ''latitude'') (get_prop b ''longitude'')]\<rparr>))
       \<and> get_locations e d =
            (\<lparr>status = 500, body = Error_message ''Error fetching locations'' (message err)\<rparr>,
             d\<lparr>calls := calls d @ [Find_sort_limit 10]\<rparr>)"
  using assms
  by (simp add: send_location_valid get_locations_def run_query_def Let_def)

theorem storage_failure_reported_witness:
  "send_location sample_runtime failing_env
     (Obj [(''latitude'', Num (Fin 45)), (''longitude'', Num (Fin 90))]) empty_db =
     (\<lparr>status = 500, body = Error_message ''Internal server error'' ''connection lost''\<rparr>,
      \<lparr>docs = [], calls = [Save (Num (Fin 45)) (Num (Fin 90))]\<rparr>)
   \<and> get_locations failing_env empty_db =
     (\<lparr>status = 500, body = Error_message ''Error fetching locations'' ''connection lost''\<rparr>,
      \<lparr>docs = [], calls = [Find_sort_limit 10]\<rparr>)"
  using storage_failure_reported [where e = failing_env and err = "storage_error ''connection lost''"
      and rt = sample_runtime and d = empty_db
      and b = "Obj [(''latitude'', Num (Fin 45)), (''longitude'', Num (Fin 90))]"]
  by (simp add: failing_env_def storage_error_def empty_db_def coordinate_ok_Num)


section \<open>The static bundle\<close>




section \<open>Zero is a coordinate\<close>

text \<open>
  C9. When both fields are supplied (neither is absent or \<open>null\<close>) and the
  latitude or the longitude is 0, the response is not the "Missing required fields"
  error: the presence test is \<open>== null\<close>, which 0 does not satisfy. The request
  goes on to the range checks, which decide the response: 400 "Invalid latitude
  value" when the latitude converts to a number that is not finite or out of
  range, else 400 "Invalid longitude value" when the longitude does; and when both
  coordinates pass, the save operation of the store is invoked with them and the
  response is 201 with the stored record (500 when the store fails).
\<close>

theorem zero_is_present:
  assumes "get_prop b ''latitude'' = Num (Fin 0) \<or> get_prop b ''longitude'' = Num (Fin 0)"
    and "\<not> eq_null (get_prop b ''latitude'')" and "\<not> eq_null (get_prop b ''longitude'')"
  shows "body (fst (send_location rt e b d)) \<noteq> Error_received ''Missing required fields'' b
       \<and> (ToNumber rt (get_prop b ''latitude'') = Inr n \<and> \<not> finite_in_range n 90 \<longrightarrow>
            send_location rt e b d =
              (\<lparr>status = 400,
                body = Error_received ''Invalid latitude value'' (get_prop b ''latitude'')\<rparr>, d))
       \<and> (coordinate_ok rt (get_prop b ''latitude'') 90 \<and>
          ToNumber rt (get_prop b ''longitude'') = Inr m \<and> \<not> finite_in_range m 180 \<longrightarrow>
            send_location rt e b d =
              (\<lparr>status = 400,
                body = Error_received ''Invalid longitude value'' (get_prop b ''longitude'')\<rparr>, d))
       \<and> (coordinate_ok rt (get_prop b ''latitude'') 90 \<and>
          coordinate_ok rt (get_prop b ''longitude'') 180 \<longrightarrow>
            send_location rt e b d =
              (case fault e of
                 Some err \<Rightarrow>
                   (\<lparr>status = 500,
                     body = Error_message ''Internal server error'' (message err)\<rparr>,
                    d\<lparr>calls := calls d @
                      [Save (get_prop b ''latitude'') (get_prop b ''longitude'')]\<rparr>)
               | None \<Rightarrow>
                   (\<lparr>status = 201,
                     body = Message_location ''Location saved successfully''
                       \<lparr>latitude = get_prop b ''latitude'',
                        longitude = get_prop b ''longitude'', createdAt = clock e\<rparr>\<rparr>,
                    d\<lparr>calls := calls d @
                        [Save (get_prop b ''latitude'') (get_prop b ''longitude'')],
                      docs := docs d @
                        [\<lparr>latitude = get_prop b ''latitude'',
                          longitude = get_prop b ''longitude'', createdAt = clock e\<rparr>]\<rparr>)))"
proof (intro conjI impI)
  show "body (fst (send_location rt e b d)) \<noteq> Error_received ''Missing required fields'' b"
    using assms(2,3) get_prop_not_null[OF assms(2)]
    by (auto simp: send_location_def send_location_try_def destructure_def save_def Let_def
        split: sum.splits bool.splits option.splits)
next
  assume "ToNumber rt (get_prop b ''latitude'') = Inr n \<and> \<not> finite_in_range n 90"
  with assms(2,3) show "send_location rt e b d =
      (\<lparr>status = 400,
        body = Error_received ''Invalid latitude value'' (get_prop b ''latitude'')\<rparr>, d)"
    by (blast intro: send_location_bad_latitude)
next
  assume a: "coordinate_ok rt (get_prop b ''latitude'') 90 \<and>
          ToNumber rt (get_prop b ''longitude'') = Inr m \<and> \<not> finite_in_range m 180"
  then obtain k where "ToNumber rt (get_prop b ''latitude'') = Inr k" "finite_in_range k 90"
    by (auto simp: coordinate_ok_def split: sum.splits)
  with a assms(2,3) show "send_location rt e b d =
      (\<lparr>status = 400,
        body = Error_received ''Invalid longitude value'' (get_prop b ''longitude'')\<rparr>, d)"
    by (blast intro: send_location_bad_longitude)
next
  assume "coordinate_ok rt (get_prop b ''latitude'') 90 \<and>
          coordinate_ok rt (get_prop b ''longitude'') 180"
  with assms(2,3) show "send_location rt e b d =
      (case fault e of
         Some err \<Rightarrow>
           (\<lparr>status = 500, body = Error_message ''Internal server error'' (message err)\<rparr>,
            d\<lparr>calls := calls d @
              [Save (get_prop b ''latitude'') (get_prop b ''longitude'')]\<rparr>)
       | None \<Rightarrow>
           (\<lparr>status = 201,
             body = Message_location ''Location saved successfully''
               \<lparr>latitude = get_prop b ''latitude'',
                longitude = get_prop b ''longitude'', createdAt = clock e\<rparr>\<rparr>,
            d\<lparr>calls := calls d @
                [Save (get_prop b ''latitude'') (get_prop b ''longitude'')],
              docs := docs d @
                [\<lparr>latitude = get_prop b ''latitude'',
                  longitude = get_prop b ''longitude'', createdAt = clock e\<rparr>]\<rparr>))"
    by (simp add: send_location_valid)
qed

theorem zero_is_present_witness:
  "send_location sample_runtime quiet_env
     (Obj [(''latitude'', Num (Fin 0)), (''longitude'', Num (Fin 0))]) empty_db =
     (\<lparr>status = 201,
       body = Message_location ''Location saved successfully''
         \<lparr>latitude = Num (Fin 0), longitude = Num (Fin 0), createdAt = 1000\<rparr>\<rparr>,
      \<lparr>docs = [\<lparr>latitude = Num (Fin 0), longitude = Num (Fin 0), createdAt = 1000\<rparr>],
       calls = [Save (Num (Fin 0)) (Num (Fin 0))]\<rparr>)
   \<and> send_location sample_runtime quiet_env
     (Obj [(''latitude'', Num (Fin 0)), (''longitude'', Num (Fin 500))]) empty_db =
     (\<lparr>status = 400, body = Error_received ''Invalid longitude value'' (Num (Fin 500))\<rparr>,
      empty_db)"
  using zero_is_present [where rt = sample_runtime and e = quiet_env and d = empty_db
      and b = "Obj [(''latitude'', Num (Fin 0)), (''longitude'', Num (Fin 0))]"
      and n = NaN and m = NaN]
    zero_is_present [where rt = sample_runtime and e = quiet_env and d = empty_db
      and b = "Obj [(''latitude'', Num (Fin 0)), (''longitude'', Num (Fin 500))]"
      and n = "Fin 0" and m = "Fin 500"]
  by (simp add: coordinate_ok_Num finite_in_range_def quiet_env_def empty_db_def)

section \<open>Values that are not numbers\<close>

text \<open>
  C10. Validation does not require the coordinates to be numbers. With the boolean
  \<open>true\<close> for both, the finiteness and range tests pass after coercion (to 1),
  the save operation is invoked with the booleans themselves and the response is
  not a 400. The same holds for the string "45", on a runtime that converts that
  string to the number 45.
\<close>

theorem non_numbers_reach_store:
  "calls (snd (send_location rt e
       (Obj [(''latitude'', Bool True), (''longitude'', Bool True)]) d)) =
     calls d @ [Save (Bool True) (Bool True)]
   \<and> status (fst (send_location rt e
       (Obj [(''latitude'', Bool True), (''longitude'', Bool True)]) d)) \<noteq> 400
   \<and> (StringToNumber rt ''45'' = Fin 45 \<longrightarrow>
        calls (snd (send_location rt e
          (Obj [(''latitude'', Str ''45''), (''longitude'', Str ''45'')]) d)) =
          calls d @ [Save (Str ''45'') (Str ''45'')]
        \<and> status (fst (send_location rt e
          (Obj [(''latitude'', Str ''45''), (''longitude'', Str ''45'')]) d)) \<noteq> 400)"
  by (simp add: send_location_valid coordinate_ok_def finite_in_range_def split: option.splits)

theorem non_numbers_reach_store_witness:
  "send_location sample_runtime quiet_env
     (Obj [(''latitude'', Str ''45''), (''longitude'', Str ''45'')]) empty_db =
     (\<lparr>status = 201,
       body = Message_location ''Location saved successfully''
         \<lparr>latitude = Str ''45'', longitude = Str ''45'', createdAt = 1000\<rparr>\<rparr>,
      \<lparr>docs = [\<lparr>latitude = Str ''45'', longitude = Str ''45'', createdAt = 1000\<rparr>],
       calls = [Save (Str ''45'') (Str ''45'')]\<rparr>)"
  using non_numbers_reach_store [where rt = sample_runtime and e = quiet_env and d = empty_db]
  by (simp add: send_location_valid coordinate_ok_def finite_in_range_def sample_runtime_def
      quiet_env_def empty_db_def)


section \<open>The order of shutdown\<close>



end
